theory Spec2Isabelle
  imports Main "HOL-Library.Word" "HOL-Library.AList"
begin

section \<open>Cookie sessions: configuration, validation and session access\<close>

text \<open>
  A shallow embedding of package \<^verbatim>\<open>session\<close> (session.go and session_typical.go).
  Strings are byte lists, as Go strings are, and \<open>length\<close> is Go's \<^verbatim>\<open>len\<close>.
  A \<^verbatim>\<open>time.Duration\<close> is its number of nanoseconds and \<^verbatim>\<open>http.SameSite\<close> its integer
  value; the code only compares them, so they are integers here. The user id of the typed
  helpers is an \<^verbatim>\<open>int64\<close>, a 64-bit word read as two's complement.
\<close>

subsection \<open>Errors and panics\<close>

datatype numerr = ErrSyntax | ErrRange

datatype error =
    ErrAuthKeyWrongSize
  | ErrEncyptKeyWrongSize
  | ErrMaxAgeTooShort
  | ErrKeyNotFound
  | ErrInvalidCookieName string
  | ErrCodec string
  | NumError string string numerr

datatype panic = NilPointerDereference | InterfaceConversion

subsection \<open>Library types\<close>

text \<open>
  The cookie options of gorilla/sessions, the cookie written by a save, the codec made of
  one key pair, and the cookie store. An \<^verbatim>\<open>interface{}\<close> value is a string or something else.
\<close>

record Options =
  Options_Path :: string
  Options_Domain :: string
  Options_MaxAge :: int
  Options_Secure :: bool
  Options_HttpOnly :: bool
  Options_SameSite :: int

record Cookie =
  Cookie_Name :: string
  Cookie_Value :: string
  Cookie_Options :: Options

record Codec =
  hashKey :: string
  blockKey :: string
  maxAge :: int

record CookieStore =
  Codecs :: "Codec list"
  store_Options :: Options

datatype iface = StringV string | IntV int | BoolV bool

type_synonym session_values = "(iface \<times> iface) list"

definition is_string :: "iface \<Rightarrow> bool" where
  "is_string x = (case x of StringV s \<Rightarrow> True | _ \<Rightarrow> False)"

definition string_entries :: "session_values \<Rightarrow> bool" where
  "string_entries vs = list_all (\<lambda>kv. is_string (fst kv) \<and> is_string (snd kv)) vs"

record Session =
  ID :: string
  Values :: session_values
  Options :: Options
  IsNew :: bool
  session_store :: "CookieStore option"
  session_name :: string

text \<open>
  A request carries its cookies and, in its context, the registry of gorilla/sessions: the
  sessions already materialised for this request, by cookie name, each with the error of
  its creation. A \<^verbatim>\<open>*Session\<close> obtained from the registry is the registered object itself, so a
  write through the pointer is a write to the registry entry. The response collects the
  cookies set on it.
\<close>

record request =
  cookies :: "(string \<times> string) list"
  registry :: "string \<rightharpoonup> (Session \<times> error option)"

type_synonym response = "Cookie list"

text \<open>
  The collaborators outside the package: the codec of gorilla/securecookie
  (\<^verbatim>\<open>DecodeMulti\<close>, \<^verbatim>\<open>EncodeMulti\<close>; a failure is its message) and the floating-point
  conversion \<^verbatim>\<open>int(d.Seconds())\<close> of a duration.
\<close>

record env =
  DecodeMulti :: "string \<Rightarrow> string \<Rightarrow> Codec list \<Rightarrow> string + session_values"
  EncodeMulti :: "string \<Rightarrow> session_values \<Rightarrow> Codec list \<Rightarrow> string + string"
  Seconds :: "int \<Rightarrow> int"

subsection \<open>Config\<close>

record Config =
  Domain :: string
  Path :: string
  MaxAge :: int
  HTTPOnly :: bool
  Secure :: bool
  SameSite :: int
  CookieName :: string
  AuthKey :: string
  EncryptKey :: string
  store :: "CookieStore option"

definition Second :: int where "Second = 1000000000"
definition Hour :: int where "Hour = 3600 * Second"

definition SameSiteStrictMode :: int where "SameSiteStrictMode = 3"

definition defaultDomain :: string where "defaultDomain = ''.''"
definition defaultPath :: string where "defaultPath = ''/''"
definition defaultMaxAge :: int where "defaultMaxAge = 1 * Hour"
definition defaultHTTPOnly :: bool where "defaultHTTPOnly = True"
definition defaultSecure :: bool where "defaultSecure = False"
definition defaultSameSite :: int where "defaultSameSite = SameSiteStrictMode"
definition defaultCookieName :: string where "defaultCookieName = ''session''"
definition authKeyLength :: nat where "authKeyLength = 64"
definition encryptKeyLength :: nat where "encryptKeyLength = 32"

definition NewConfig :: Config where
  "NewConfig = \<lparr>Domain = defaultDomain, Path = defaultPath, MaxAge = defaultMaxAge,
     HTTPOnly = defaultHTTPOnly, Secure = defaultSecure, SameSite = defaultSameSite,
     CookieName = defaultCookieName, AuthKey = [], EncryptKey = [], store = None\<rparr>"

text \<open>The zero value of \<^verbatim>\<open>Config\<close>: the package-level variable before \<^verbatim>\<open>DefaultConfig()\<close>.\<close>

definition zeroConfig :: Config where
  "zeroConfig = \<lparr>Domain = [], Path = [], MaxAge = 0, HTTPOnly = False, Secure = False,
     SameSite = 0, CookieName = [], AuthKey = [], EncryptKey = [], store = None\<rparr>"

subsection \<open>White space\<close>

text \<open>
  \<^verbatim>\<open>validate\<close> only asks whether \<^verbatim>\<open>strings.TrimSpace(s)\<close> is the empty string, and keeps
  \<open>s\<close> itself otherwise. \<^verbatim>\<open>TrimSpace\<close> removes the leading and the trailing white space,
  as Unicode defines it (\<^verbatim>\<open>unicode.IsSpace\<close>), so its result is empty exactly when every rune
  of \<open>s\<close> is white space. Runes are decoded from the bytes as \<^verbatim>\<open>utf8.DecodeRuneInString\<close>
  does: an ill-formed sequence is the rune \<^verbatim>\<open>RuneError\<close> of width 1, which is not white space.
\<close>

definition RuneError :: nat where "RuneError = 0xFFFD"

definition cont :: "nat \<Rightarrow> bool" where
  "cont b = (0x80 \<le> b \<and> b \<le> 0xBF)"

definition DecodeRune :: "nat list \<Rightarrow> nat \<times> nat" where
  "DecodeRune s =
    (case s of [] \<Rightarrow> (RuneError, 0) | b0 # bs \<Rightarrow>
     if b0 < 0x80 then (b0, 1)
     else if 0xC2 \<le> b0 \<and> b0 \<le> 0xDF then
       (case bs of
          b1 # _ \<Rightarrow> if cont b1 then ((b0 mod 32) * 64 + b1 mod 64, 2) else (RuneError, 1)
        | _ \<Rightarrow> (RuneError, 1))
     else if 0xE0 \<le> b0 \<and> b0 \<le> 0xEF then
       (case bs of
          b1 # b2 # _ \<Rightarrow>
            if (if b0 = 0xE0 then 0xA0 else 0x80) \<le> b1
               \<and> b1 \<le> (if b0 = 0xED then 0x9F else 0xBF) \<and> cont b2
            then ((b0 mod 16) * 4096 + (b1 mod 64) * 64 + b2 mod 64, 3)
            else (RuneError, 1)
        | _ \<Rightarrow> (RuneError, 1))
     else if 0xF0 \<le> b0 \<and> b0 \<le> 0xF4 then
       (case bs of
          b1 # b2 # b3 # _ \<Rightarrow>
            if (if b0 = 0xF0 then 0x90 else 0x80) \<le> b1
               \<and> b1 \<le> (if b0 = 0xF4 then 0x8F else 0xBF) \<and> cont b2 \<and> cont b3
            then ((b0 mod 8) * 262144 + (b1 mod 64) * 4096 + (b2 mod 64) * 64 + b3 mod 64, 4)
            else (RuneError, 1)
        | _ \<Rightarrow> (RuneError, 1))
     else (RuneError, 1))"

definition IsSpace :: "nat \<Rightarrow> bool" where
  "IsSpace r =
    (if r \<le> 0xFF then
       r = 9 \<or> r = 10 \<or> r = 11 \<or> r = 12 \<or> r = 13 \<or> r = 32 \<or> r = 0x85 \<or> r = 0xA0
     else
       r = 0x1680 \<or> (0x2000 \<le> r \<and> r \<le> 0x200A) \<or> r = 0x2028 \<or> r = 0x2029
       \<or> r = 0x202F \<or> r = 0x205F \<or> r = 0x3000)"

fun all_space :: "nat list \<Rightarrow> bool" where
  "all_space [] = True"
| "all_space (b # bs) =
    (IsSpace (fst (DecodeRune (b # bs)))
     \<and> all_space (drop (snd (DecodeRune (b # bs)) - 1) bs))"

definition TrimSpace_empty :: "string \<Rightarrow> bool" where
  "TrimSpace_empty s = all_space (map of_char s)"

subsection \<open>Random keys\<close>

text \<open>
  \<^verbatim>\<open>securecookie.GenerateRandomKey(n)\<close> reads \<open>n\<close> bytes from the system's random source
  and returns nil when the read fails. The source is a tape with one entry per read: the
  bytes the system delivers. A read that delivers fewer than \<open>n\<close> bytes has failed, and the
  conversion of nil to a string is the empty string.
\<close>

type_synonym rand = "string list"

fun GenerateRandomKey :: "rand \<Rightarrow> nat \<Rightarrow> string \<times> rand" where
  "GenerateRandomKey [] n = ([], [])"
| "GenerateRandomKey (k # rest) n = (if n \<le> length k then take n k else [], rest)"

subsection \<open>validate\<close>

text \<open>
  \<^verbatim>\<open>validate\<close> updates the configuration in place and returns an error or nil. The model
  returns the tape that is left, the configuration as the call leaves it (also when it
  fails), and the error. Each \<^verbatim>\<open>if\<close> statement that sets a default and each of the two
  \<^verbatim>\<open>switch\<close> statements on the key lengths is a function of its own, and \<^verbatim>\<open>validate\<close>
  runs them in the order of the source.
\<close>

definition default_Domain :: "Config \<Rightarrow> Config" where
  "default_Domain c = (if TrimSpace_empty (Domain c) then c\<lparr>Domain := defaultDomain\<rparr> else c)"

definition default_Path :: "Config \<Rightarrow> Config" where
  "default_Path c = (if TrimSpace_empty (Path c) then c\<lparr>Path := defaultPath\<rparr> else c)"

definition default_SameSite :: "Config \<Rightarrow> Config" where
  "default_SameSite c =
    (if SameSite c < 1 \<or> SameSite c > 4 then c\<lparr>SameSite := defaultSameSite\<rparr> else c)"

definition switch_AuthKey :: "rand \<Rightarrow> Config \<Rightarrow> rand \<times> Config \<times> error option" where
  "switch_AuthKey rnd c =
    (if length (AuthKey c) = 0 then
       (case GenerateRandomKey rnd authKeyLength of
          (k, rnd') \<Rightarrow> (rnd', c\<lparr>AuthKey := k\<rparr>, None))
     else if length (AuthKey c) = authKeyLength then (rnd, c, None)
     else (rnd, c, Some ErrAuthKeyWrongSize))"

definition switch_EncryptKey :: "rand \<Rightarrow> Config \<Rightarrow> rand \<times> Config \<times> error option" where
  "switch_EncryptKey rnd c =
    (if length (EncryptKey c) = 0 then
       (case GenerateRandomKey rnd encryptKeyLength of
          (k, rnd') \<Rightarrow> (rnd', c\<lparr>EncryptKey := k\<rparr>, None))
     else if length (EncryptKey c) = encryptKeyLength then (rnd, c, None)
     else (rnd, c, Some ErrEncyptKeyWrongSize))"

definition validate :: "rand \<Rightarrow> Config \<Rightarrow> rand \<times> Config \<times> error option" where
  "validate rnd c =
    (let c2 = default_Path (default_Domain c)
     in
       if MaxAge c2 < 1 * Second then (rnd, c2, Some ErrMaxAgeTooShort)
       else
         (case switch_AuthKey rnd (default_SameSite c2) of
            (rnd4, c4, Some e) \<Rightarrow> (rnd4, c4, Some e)
          | (rnd4, c4, None) \<Rightarrow> switch_EncryptKey rnd4 c4))"

text \<open>The three components of a result of \<^verbatim>\<open>validate\<close>.\<close>

definition rand_of :: "rand \<times> Config \<times> error option \<Rightarrow> rand" where
  "rand_of x = fst x"

definition config_of :: "rand \<times> Config \<times> error option \<Rightarrow> Config" where
  "config_of x = fst (snd x)"

definition error_of :: "rand \<times> Config \<times> error option \<Rightarrow> error option" where
  "error_of x = snd (snd x)"

subsection \<open>getOptions and Init\<close>

definition getOptions :: "env \<Rightarrow> Config \<Rightarrow> Options" where
  "getOptions ev c =
    \<lparr>Options_Path = Path c, Options_Domain = Domain c,
     Options_MaxAge = Seconds ev (MaxAge c), Options_Secure = Secure c,
     Options_HttpOnly = HTTPOnly c, Options_SameSite = SameSite c\<rparr>"

text \<open>
  \<^verbatim>\<open>sessions.NewCookieStore\<close> makes one codec of the key pair, with the store's default
  options (path "/", thirty days).
\<close>

definition NewCookieStore :: "string \<Rightarrow> string \<Rightarrow> CookieStore" where
  "NewCookieStore hk bk =
    \<lparr>Codecs = [\<lparr>hashKey = hk, blockKey = bk, maxAge = 86400 * 30\<rparr>],
     store_Options = \<lparr>Options_Path = ''/'', Options_Domain = [], Options_MaxAge = 86400 * 30,
       Options_Secure = False, Options_HttpOnly = False, Options_SameSite = 0\<rparr>\<rparr>"

definition Init :: "env \<Rightarrow> rand \<Rightarrow> Config \<Rightarrow> rand \<times> Config \<times> error option" where
  "Init ev rnd c =
    (case validate rnd c of
       (rnd', c', Some e) \<Rightarrow> (rnd', c', Some e)
     | (rnd', c', None) \<Rightarrow>
         (rnd',
          c'\<lparr>store := Some ((NewCookieStore (AuthKey c') (EncryptKey c'))
                              \<lparr>store_Options := getOptions ev c'\<rparr>)\<rparr>,
          None))"

subsection \<open>The session registry and the cookie store\<close>

text \<open>
  The part of the library gorilla/sessions that \<^verbatim>\<open>GetSession\<close> and \<^verbatim>\<open>Save\<close> run through,
  after its sources and documentation (\<^verbatim>\<open>CookieStore.Get\<close> is \<^verbatim>\<open>GetRegistry(r).Get(s, name)\<close>).
  \<^verbatim>\<open>Registry.Get\<close> refuses a cookie name that is not a token, returns the session registered
  under the name when there is one, and otherwise asks the store for a new session and
  registers it with its error. \<^verbatim>\<open>CookieStore.New\<close> copies the store's options, which
  dereferences the store, and decodes the request's cookie when there is one: the session
  comes back also when decoding fails, with the decoding error beside it.
  \<^verbatim>\<open>CookieStore.Save\<close> reads the store's codecs, which dereferences the store.
\<close>

definition isToken :: "nat \<Rightarrow> bool" where
  "isToken b =
    (b = 33 \<or> (35 \<le> b \<and> b \<le> 39) \<or> b = 42 \<or> b = 43 \<or> b = 45 \<or> b = 46
     \<or> (48 \<le> b \<and> b \<le> 57) \<or> (65 \<le> b \<and> b \<le> 90) \<or> (94 \<le> b \<and> b \<le> 122)
     \<or> b = 124 \<or> b = 126)"

definition isCookieNameValid :: "string \<Rightarrow> bool" where
  "isCookieNameValid raw = (raw \<noteq> [] \<and> list_all isToken (map of_char raw))"

definition zeroOptions :: Options where
  "zeroOptions = \<lparr>Options_Path = [], Options_Domain = [], Options_MaxAge = 0,
     Options_Secure = False, Options_HttpOnly = False, Options_SameSite = 0\<rparr>"

definition NewSession :: "CookieStore option \<Rightarrow> string \<Rightarrow> Session" where
  "NewSession st nm =
    \<lparr>ID = [], Values = [], Options = zeroOptions, IsNew = False,
     session_store = st, session_name = nm\<rparr>"

definition CookieStore_New ::
  "env \<Rightarrow> CookieStore option \<Rightarrow> request \<Rightarrow> string \<Rightarrow> panic + (Session \<times> error option)" where
  "CookieStore_New ev st r nm =
    (case st of
       None \<Rightarrow> Inl NilPointerDereference
     | Some cs \<Rightarrow>
         (let session = (NewSession st nm)\<lparr>Options := store_Options cs, IsNew := True\<rparr>
          in case map_of (cookies r) nm of
               None \<Rightarrow> Inr (session, None)
             | Some v \<Rightarrow>
                 (case DecodeMulti ev nm v (Codecs cs) of
                    Inl msg \<Rightarrow> Inr (session, Some (ErrCodec msg))
                  | Inr vals \<Rightarrow> Inr (session\<lparr>Values := vals, IsNew := False\<rparr>, None))))"

definition Registry_Get ::
  "env \<Rightarrow> CookieStore option \<Rightarrow> string \<Rightarrow> request
     \<Rightarrow> panic + (request \<times> Session option \<times> error option)" where
  "Registry_Get ev st nm r =
    (if \<not> isCookieNameValid nm then Inr (r, None, Some (ErrInvalidCookieName nm))
     else
       (case registry r nm of
          Some (s, e) \<Rightarrow>
            (let s' = s\<lparr>session_store := st\<rparr>
             in Inr (r\<lparr>registry := (registry r)(nm \<mapsto> (s', e))\<rparr>, Some s', e))
        | None \<Rightarrow>
            (case CookieStore_New ev st r nm of
               Inl p \<Rightarrow> Inl p
             | Inr (s, e) \<Rightarrow>
                 (let s' = s\<lparr>session_name := nm, session_store := st\<rparr>
                  in Inr (r\<lparr>registry := (registry r)(nm \<mapsto> (s', e))\<rparr>, Some s', e)))))"

definition NewCookie :: "string \<Rightarrow> string \<Rightarrow> Options \<Rightarrow> Cookie" where
  "NewCookie nm v opts = \<lparr>Cookie_Name = nm, Cookie_Value = v, Cookie_Options = opts\<rparr>"

definition Session_Save :: "env \<Rightarrow> Session \<Rightarrow> response \<Rightarrow> panic + (response \<times> error option)" where
  "Session_Save ev s w =
    (case session_store s of
       None \<Rightarrow> Inl NilPointerDereference
     | Some cs \<Rightarrow>
         (case EncodeMulti ev (session_name s) (Values s) (Codecs cs) of
            Inl msg \<Rightarrow> Inr (w, Some (ErrCodec msg))
          | Inr encoded \<Rightarrow> Inr (w @ [NewCookie (session_name s) encoded (Options s)], None)))"

text \<open>
  A write through the session pointer obtained under a name: the session registered
  under that name is replaced, its error stays.
\<close>

definition store_session :: "request \<Rightarrow> string \<Rightarrow> Session \<Rightarrow> request" where
  "store_session r nm s =
    r\<lparr>registry := (registry r)(nm \<mapsto>
         (s, case registry r nm of Some (s0, e) \<Rightarrow> e | None \<Rightarrow> None))\<rparr>"

subsection \<open>The session operations of Config\<close>

text \<open>
  Each operation returns a panic, or the request and the response as it leaves them with
  its results. A nil session with a nil error does not come out of the registry; the code
  would dereference it.
\<close>

definition GetSession ::
  "env \<Rightarrow> Config \<Rightarrow> request \<Rightarrow> panic + (request \<times> Session option \<times> error option)" where
  "GetSession ev c r = Registry_Get ev (store c) (CookieName c) r"

definition Destroy ::
  "env \<Rightarrow> Config \<Rightarrow> response \<Rightarrow> request \<Rightarrow> panic + (request \<times> response \<times> error option)" where
  "Destroy ev c w r =
    (case GetSession ev c r of
       Inl p \<Rightarrow> Inl p
     | Inr (r1, so, Some e) \<Rightarrow> Inr (r1, w, Some e)
     | Inr (r1, None, None) \<Rightarrow> Inl NilPointerDereference
     | Inr (r1, Some s, None) \<Rightarrow>
         (let s1 = s\<lparr>Options := getOptions ev c\<rparr>;
              s2 = s1\<lparr>Options := (Options s1)\<lparr>Options_MaxAge := - 1\<rparr>\<rparr>;
              r2 = store_session r1 (CookieName c) s2
          in case Session_Save ev s2 w of
               Inl p \<Rightarrow> Inl p
             | Inr (w1, e) \<Rightarrow> Inr (r2, w1, e)))"

definition Extend ::
  "env \<Rightarrow> Config \<Rightarrow> response \<Rightarrow> request \<Rightarrow> panic + (request \<times> response \<times> error option)" where
  "Extend ev c w r =
    (case GetSession ev c r of
       Inl p \<Rightarrow> Inl p
     | Inr (r1, so, Some e) \<Rightarrow> Inr (r1, w, Some e)
     | Inr (r1, None, None) \<Rightarrow> Inl NilPointerDereference
     | Inr (r1, Some s, None) \<Rightarrow>
         (let s1 = s\<lparr>Options := getOptions ev c\<rparr>;
              r2 = store_session r1 (CookieName c) s1
          in case Session_Save ev s1 w of
               Inl p \<Rightarrow> Inl p
             | Inr (w1, e) \<Rightarrow> Inr (r2, w1, e)))"

definition AddValue ::
  "env \<Rightarrow> Config \<Rightarrow> response \<Rightarrow> request \<Rightarrow> string \<Rightarrow> string
     \<Rightarrow> panic + (request \<times> response \<times> error option)" where
  "AddValue ev c w r key val =
    (case GetSession ev c r of
       Inl p \<Rightarrow> Inl p
     | Inr (r1, so, Some e) \<Rightarrow> Inr (r1, w, Some e)
     | Inr (r1, None, None) \<Rightarrow> Inl NilPointerDereference
     | Inr (r1, Some s, None) \<Rightarrow>
         (let s1 = s\<lparr>Values := AList.update (StringV key) (StringV val) (Values s)\<rparr>;
              r2 = store_session r1 (CookieName c) s1
          in case Session_Save ev s1 w of
               Inl p \<Rightarrow> Inl p
             | Inr (w1, e) \<Rightarrow> Inr (r2, w1, e)))"

definition GetValue ::
  "env \<Rightarrow> Config \<Rightarrow> request \<Rightarrow> string \<Rightarrow> panic + (request \<times> string \<times> error option)" where
  "GetValue ev c r key =
    (case GetSession ev c r of
       Inl p \<Rightarrow> Inl p
     | Inr (r1, so, Some e) \<Rightarrow> Inr (r1, [], Some e)
     | Inr (r1, None, None) \<Rightarrow> Inl NilPointerDereference
     | Inr (r1, Some s, None) \<Rightarrow>
         (case map_of (Values s) (StringV key) of
            Some (StringV v) \<Rightarrow> Inr (r1, v, None)
          | _ \<Rightarrow> Inr (r1, [], Some ErrKeyNotFound)))"

text \<open>
  The loop of \<^verbatim>\<open>GetAllValues\<close> over the entries of the session: each key and each value
  is asserted to be a string, and an assertion that fails panics.
\<close>

fun range_Values :: "session_values \<Rightarrow> (string \<times> string) list \<Rightarrow> panic + (string \<times> string) list" where
  "range_Values [] kv = Inr kv"
| "range_Values ((k, v) # rest) kv =
    (case k of
       StringV ks \<Rightarrow>
         (case v of
            StringV vs \<Rightarrow> range_Values rest (AList.update ks vs kv)
          | _ \<Rightarrow> Inl InterfaceConversion)
     | _ \<Rightarrow> Inl InterfaceConversion)"

definition GetAllValues ::
  "env \<Rightarrow> Config \<Rightarrow> request \<Rightarrow> panic + (request \<times> (string \<times> string) list \<times> error option)" where
  "GetAllValues ev c r =
    (case GetSession ev c r of
       Inl p \<Rightarrow> Inl p
     | Inr (r1, so, Some e) \<Rightarrow> Inr (r1, [], Some e)
     | Inr (r1, None, None) \<Rightarrow> Inl NilPointerDereference
     | Inr (r1, Some s, None) \<Rightarrow>
         (case range_Values (Values s) [] of
            Inl p \<Rightarrow> Inl p
          | Inr kv \<Rightarrow> Inr (r1, kv, None)))"

subsection \<open>strconv\<close>

text \<open>
  \<^verbatim>\<open>strconv.FormatInt(i, 10)\<close> writes the decimal digits of the magnitude after a minus sign
  for a negative number. \<^verbatim>\<open>strconv.ParseInt(s, 10, 64)\<close> takes off one sign, reads the
  digits with \<^verbatim>\<open>ParseUint\<close>, whose loop stops at the first byte that is not a digit
  (a syntax error) or at the first overflow of 64 bits (a range error), and checks the
  range of \<^verbatim>\<open>int64\<close>. It returns a value beside every error.
\<close>

definition digits :: string where
  "digits = ''0123456789abcdefghijklmnopqrstuvwxyz''"

fun decimal :: "nat \<Rightarrow> string" where
  "decimal n =
    (if n < 10 then [digits ! n]
     else decimal (n div 10) @ [digits ! (n mod 10)])"

declare decimal.simps [simp del]

definition FormatInt :: "64 word \<Rightarrow> string" where
  "FormatInt i =
    (if sint i < 0 then CHR ''-'' # decimal (nat (- sint i)) else decimal (nat (sint i)))"

definition maxUint64 :: nat where "maxUint64 = 2 ^ 64 - 1"

definition ParseUint_step :: "char \<Rightarrow> nat \<Rightarrow> (nat \<times> numerr option) + nat" where
  "ParseUint_step c n =
    (if \<not> (48 \<le> (of_char c :: nat) \<and> (of_char c :: nat) \<le> 57) then Inl (0, Some ErrSyntax)
     else if n \<ge> maxUint64 div 10 + 1 then Inl (maxUint64, Some ErrRange)
     else
       let n10 = (n * 10) mod 2 ^ 64;
           n1 = (n10 + (of_char c - 48)) mod 2 ^ 64
       in if n1 < n10 \<or> n1 > maxUint64 then Inl (maxUint64, Some ErrRange)
          else Inr n1)"

fun ParseUint_loop :: "string \<Rightarrow> nat \<Rightarrow> nat \<times> numerr option" where
  "ParseUint_loop [] n = (n, None)"
| "ParseUint_loop (c # cs) n =
    (case ParseUint_step c n of
       Inl res \<Rightarrow> res
     | Inr n1 \<Rightarrow> ParseUint_loop cs n1)"

definition ParseUint :: "string \<Rightarrow> nat \<times> numerr option" where
  "ParseUint s = (if s = [] then (0, Some ErrSyntax) else ParseUint_loop s 0)"

definition ParseInt :: "string \<Rightarrow> 64 word \<times> error option" where
  "ParseInt s0 =
    (case s0 of
       [] \<Rightarrow> (0, Some (NumError ''ParseInt'' s0 ErrSyntax))
     | c # cs \<Rightarrow>
         (let neg = (c = CHR ''-'');
              s = (if c = CHR ''+'' \<or> c = CHR ''-'' then cs else s0)
          in case ParseUint s of
               (un, Some ErrSyntax) \<Rightarrow> (0, Some (NumError ''ParseInt'' s0 ErrSyntax))
             | (un, err) \<Rightarrow>
                 if \<not> neg \<and> un \<ge> 2 ^ 63
                 then (word_of_nat (2 ^ 63 - 1), Some (NumError ''ParseInt'' s0 ErrRange))
                 else if neg \<and> un > 2 ^ 63
                 then (- word_of_nat (2 ^ 63), Some (NumError ''ParseInt'' s0 ErrRange))
                 else (if neg then - word_of_nat un else word_of_nat un, None)))"

subsection \<open>The typed helpers for the user id\<close>

definition keyUserID :: string where "keyUserID = ''user_id''"

definition AddUserID ::
  "env \<Rightarrow> Config \<Rightarrow> response \<Rightarrow> request \<Rightarrow> 64 word
     \<Rightarrow> panic + (request \<times> response \<times> error option)" where
  "AddUserID ev c w r val = AddValue ev c w r keyUserID (FormatInt val)"

definition GetUserID ::
  "env \<Rightarrow> Config \<Rightarrow> request \<Rightarrow> panic + (request \<times> 64 word \<times> error option)" where
  "GetUserID ev c r =
    (case GetValue ev c r keyUserID of
       Inl p \<Rightarrow> Inl p
     | Inr (r1, valStr, Some e) \<Rightarrow> Inr (r1, 0, Some e)
     | Inr (r1, valStr, None) \<Rightarrow>
         (case ParseInt valStr of (val, err) \<Rightarrow> Inr (r1, val, err)))"

subsection \<open>The specification of Extend and Destroy\<close>

text \<open>
  What the specification says of both operations: obtain the session, derive the cookie
  options from the configuration as it is now, apply an override to them, and save.
\<close>

definition resave_with ::
  "(Options \<Rightarrow> Options) \<Rightarrow> env \<Rightarrow> Config \<Rightarrow> response \<Rightarrow> request
     \<Rightarrow> panic + (request \<times> response \<times> error option)" where
  "resave_with override ev c w r =
    (case GetSession ev c r of
       Inl p \<Rightarrow> Inl p
     | Inr (r1, so, Some e) \<Rightarrow> Inr (r1, w, Some e)
     | Inr (r1, None, None) \<Rightarrow> Inl NilPointerDereference
     | Inr (r1, Some s, None) \<Rightarrow>
         (let s1 = s\<lparr>Options := override (getOptions ev c)\<rparr>
          in case Session_Save ev s1 w of
               Inl p \<Rightarrow> Inl p
             | Inr (w1, e) \<Rightarrow> Inr (store_session r1 (CookieName c) s1, w1, e)))"

subsection \<open>Projections and test data\<close>

text \<open>The error a session operation returns, when it returns.\<close>

definition returned_error :: "panic + ('a \<times> 'b \<times> error option) \<Rightarrow> error option" where
  "returned_error x = (case x of Inl p \<Rightarrow> None | Inr (a, b, e) \<Rightarrow> e)"

definition panics :: "panic + 'a \<Rightarrow> bool" where
  "panics x = (case x of Inl p \<Rightarrow> True | Inr y \<Rightarrow> False)"

text \<open>
  A codec that opens two sealed values and rejects every other, a request without
  cookies, a random source that delivers two reads, and the configuration that
  \<^verbatim>\<open>NewConfig()\<close> and \<^verbatim>\<open>Init()\<close> leave with them.
\<close>

definition testEnv :: env where
  "testEnv =
    \<lparr>DecodeMulti = (\<lambda>nm v cs.
        if v = ''sealed'' then Inr [(StringV ''key'', StringV ''value'')]
        else if v = ''sealed abc'' then Inr [(StringV ''user_id'', StringV ''abc'')]
        else Inl ''securecookie: the value is not valid''),
     EncodeMulti = (\<lambda>nm vals cs. Inr ''sealed''),
     Seconds = (\<lambda>d. d div 1000000000)\<rparr>"

definition emptyRequest :: request where
  "emptyRequest = \<lparr>cookies = [], registry = Map.empty\<rparr>"

definition testTape :: rand where
  "testTape = [replicate 64 (CHR ''a''), replicate 32 (CHR ''e'')]"

definition testConfig :: Config where
  "testConfig = config_of (Init testEnv testTape NewConfig)"

section \<open>Properties\<close>

subsection \<open>Definitions to unfold and the test configuration\<close>

lemmas validate_defs = validate_def default_Domain_def default_Path_def default_SameSite_def
  switch_AuthKey_def switch_EncryptKey_def config_of_def error_of_def rand_of_def Let_def authKeyLength_def encryptKeyLength_def

lemmas default_defs = NewConfig_def defaultDomain_def defaultPath_def defaultMaxAge_def
  defaultHTTPOnly_def defaultSecure_def defaultSameSite_def defaultCookieName_def
  SameSiteStrictMode_def Hour_def Second_def

lemmas blank_defs = TrimSpace_empty_def DecodeRune_def IsSpace_def cont_def RuneError_def

lemmas session_defs = GetSession_def Registry_Get_def CookieStore_New_def NewSession_def
  Session_Save_def store_session_def NewCookie_def isCookieNameValid_def isToken_def Let_def










lemma testConfig_eq:
  "testConfig =
     \<lparr>Domain = ''.'', Path = ''/'', MaxAge = 3600000000000, HTTPOnly = True, Secure = False,
      SameSite = 3, CookieName = ''session'', AuthKey = replicate 64 (CHR ''a''),
      EncryptKey = replicate 32 (CHR ''e''),
      store = Some \<lparr>Codecs = [\<lparr>hashKey = replicate 64 (CHR ''a''),
                                  blockKey = replicate 32 (CHR ''e''), maxAge = 2592000\<rparr>],
                     store_Options = \<lparr>Options_Path = ''/'', Options_Domain = ''.'',
                       Options_MaxAge = 3600, Options_Secure = False, Options_HttpOnly = True,
                       Options_SameSite = 3\<rparr>\<rparr>\<rparr>"
  by (simp add: testConfig_def Init_def validate_defs default_defs blank_defs testTape_def
        testEnv_def NewCookieStore_def getOptions_def)

subsection \<open>The registry keeps the session of a request\<close>

lemma Registry_Get_Some:
  "Registry_Get ev st nm r = Inr (r1, Some s, e) \<Longrightarrow>
     isCookieNameValid nm \<and> registry r1 nm = Some (s, e) \<and> session_store s = st
     \<and> cookies r1 = cookies r"
  by (auto simp add: Registry_Get_def Let_def split: if_splits option.splits sum.splits prod.splits)

lemma Registry_Get_registered:
  "isCookieNameValid nm \<Longrightarrow> registry r nm = Some (s, e) \<Longrightarrow> session_store s = st \<Longrightarrow>
     Registry_Get ev st nm r = Inr (r, Some s, e)"
  by (simp add: Registry_Get_def Let_def map_upd_triv)

lemma store_session_registered:
  "registry r nm = Some (s, e) \<Longrightarrow>
     registry (store_session r nm s') nm = Some (s', e)"
  by (simp add: store_session_def)

lemma GetSession_after_write:
  assumes "GetSession ev c r = Inr (r1, Some s, e)" "session_store s' = session_store s"
  shows "GetSession ev c (store_session r1 (CookieName c) s') =
           Inr (store_session r1 (CookieName c) s', Some s', e)"
proof -
  from assms(1) have v: "isCookieNameValid (CookieName c)"
    and reg: "registry r1 (CookieName c) = Some (s, e)"
    and st: "session_store s = store c"
    using Registry_Get_Some [of ev "store c" "CookieName c" r r1 s e]
    by (simp_all add: GetSession_def)
  from reg have "registry (store_session r1 (CookieName c) s') (CookieName c) = Some (s', e)"
    by (rule store_session_registered)
  with v st assms(2) show ?thesis
    unfolding GetSession_def by (intro Registry_Get_registered) simp_all
qed

lemma AddValue_ok:
  assumes "AddValue ev c w r k v = Inr (r1, w1, None)"
  shows "\<exists>r0 s. GetSession ev c r = Inr (r0, Some s, None) \<and>
           r1 = store_session r0 (CookieName c)
                  (s\<lparr>Values := AList.update (StringV k) (StringV v) (Values s)\<rparr>)"
  using assms
  by (auto simp add: AddValue_def Let_def split: sum.splits prod.splits option.splits)

lemma GetValue_after_AddValue:
  assumes "AddValue ev c w r k v = Inr (r1, w1, None)"
  shows "GetValue ev c r1 k = Inr (r1, v, None)"
proof -
  from AddValue_ok [OF assms] obtain r0 s where
    g: "GetSession ev c r = Inr (r0, Some s, None)" and
    r1: "r1 = store_session r0 (CookieName c)
                  (s\<lparr>Values := AList.update (StringV k) (StringV v) (Values s)\<rparr>)"
    by blast
  let ?s = "s\<lparr>Values := AList.update (StringV k) (StringV v) (Values s)\<rparr>"
  have "GetSession ev c r1 = Inr (r1, Some ?s, None)"
    unfolding r1 by (rule GetSession_after_write [OF g]) simp
  then show ?thesis
    by (simp add: GetValue_def update_conv')
qed

lemma GetValue_absent:
  assumes "GetSession ev c r = Inr (r1, Some s, None)"
    and "map_of (Values s) (StringV k) = None \<or>
         (\<exists>x. map_of (Values s) (StringV k) = Some x \<and> \<not> is_string x)"
  shows "GetValue ev c r k = Inr (r1, [], Some ErrKeyNotFound)"
proof (cases "map_of (Values s) (StringV k)")
  case None
  with assms(1) show ?thesis by (simp add: GetValue_def)
next
  case (Some x)
  with assms(2) have "\<not> is_string x" by auto
  with Some assms(1) show ?thesis
    by (cases x) (simp_all add: GetValue_def is_string_def)
qed

subsection \<open>The loop of GetAllValues\<close>

lemma string_entries_lookup:
  "string_entries vs \<Longrightarrow> map_of vs k = Some x \<Longrightarrow> \<exists>v. x = StringV v"
  by (cases x) (auto simp add: string_entries_def list_all_iff is_string_def dest!: map_of_SomeD)

lemma range_Values_strings:
  "string_entries vs \<Longrightarrow> distinct (map fst vs) \<Longrightarrow> distinct (map fst kv) \<Longrightarrow>
     \<exists>kv'. range_Values vs kv = Inr kv' \<and> distinct (map fst kv') \<and>
       (\<forall>k v. map_of vs (StringV k) = Some (StringV v) \<longrightarrow> map_of kv' k = Some v) \<and>
       (\<forall>k. map_of vs (StringV k) = None \<longrightarrow> map_of kv' k = map_of kv k)"
proof (induction vs kv rule: range_Values.induct)
  case (1 kv)
  then show ?case by simp
next
  case (2 k v rest kv)
  from "2.prems"(1) obtain ks vs where k: "k = StringV ks" and v: "v = StringV vs"
    by (cases k; cases v) (auto simp add: string_entries_def is_string_def)
  from "2.prems" have rest: "string_entries rest" "distinct (map fst rest)"
    and fresh: "map_of rest (StringV ks) = None"
    by (auto simp add: string_entries_def k map_of_eq_None_iff)
  have "distinct (map fst (AList.update ks vs kv))"
    using "2.prems"(3) by (simp add: distinct_update)
  with "2.IH" [OF k v rest(1) rest(2)] obtain kv' where
    r: "range_Values rest (AList.update ks vs kv) = Inr kv'" and d: "distinct (map fst kv')" and
    m1: "\<forall>k v. map_of rest (StringV k) = Some (StringV v) \<longrightarrow> map_of kv' k = Some v" and
    m2: "\<forall>k. map_of rest (StringV k) = None \<longrightarrow> map_of kv' k = map_of (AList.update ks vs kv) k"
    by blast
  have a: "\<forall>k' v'. map_of ((k, v) # rest) (StringV k') = Some (StringV v') \<longrightarrow> map_of kv' k' = Some v'"
    using m1 m2 fresh by (auto simp add: k v update_conv')
  have b: "\<forall>k'. map_of ((k, v) # rest) (StringV k') = None \<longrightarrow> map_of kv' k' = map_of kv k'"
    using m2 by (auto simp add: k v update_conv' split: if_splits)
  from r d a b show ?case by (simp only: k v range_Values.simps iface.case) blast
qed

subsection \<open>Decimal numbers\<close>

lemma ParseUint_step_Inl: "ParseUint_step c n = Inl (a, e) \<Longrightarrow> e \<noteq> None"
  by (auto simp add: ParseUint_step_def Let_def split: if_splits)

lemma ParseUint_loop_append:
  "ParseUint_loop (xs @ ys) n =
     (case ParseUint_loop xs n of (m, None) \<Rightarrow> ParseUint_loop ys m | (m, Some e) \<Rightarrow> (m, Some e))"
  by (induction xs n rule: ParseUint_loop.induct)
    (auto split: sum.splits prod.splits option.splits dest: ParseUint_step_Inl)

lemma decimal_not_Nil: "decimal n \<noteq> []"
  by (subst decimal.simps) simp

lemma digit_char: "d < 10 \<Longrightarrow> (of_char (digits ! d) :: nat) = 48 + d"
  by (auto simp add: digits_def less_Suc_eq numeral_eq_Suc)

lemma ParseUint_loop_digit:
  assumes "d < 10" "n * 10 + d < 2 ^ 64"
  shows "ParseUint_loop [digits ! d] n = (n * 10 + d, None)"
proof -
  have c: "(of_char (digits ! d) :: nat) = 48 + d"
    using assms(1) by (rule digit_char)
  have n: "n < maxUint64 div 10 + 1"
    using assms by (simp add: maxUint64_def)
  have m: "(n * 10) mod 2 ^ 64 = n * 10" "(n * 10 + d) mod 2 ^ 64 = n * 10 + d"
    using assms by simp_all
  show ?thesis
    using assms n by (simp add: ParseUint_step_def c m Let_def maxUint64_def)
qed

lemma ParseUint_loop_decimal:
  "n < 2 ^ 64 \<Longrightarrow> ParseUint_loop (decimal n) 0 = (n, None)"
proof (induction n rule: decimal.induct)
  case (1 n)
  show ?case
  proof (cases "n < 10")
    case True
    with ParseUint_loop_digit [of n 0] show ?thesis
      by (subst decimal.simps) simp
  next
    case False
    from "1.prems" have "n div 10 < 2 ^ 64" by simp
    with "1.IH" False have ih: "ParseUint_loop (decimal (n div 10)) 0 = (n div 10, None)"
      by simp
    have "n div 10 * 10 + n mod 10 = n" by simp
    with "1.prems" ParseUint_loop_digit [of "n mod 10" "n div 10"]
    have "ParseUint_loop [digits ! (n mod 10)] (n div 10) = (n, None)"
      by simp
    with ih False show ?thesis
      by (subst decimal.simps) (simp add: ParseUint_loop_append)
  qed
qed

lemma decimal_hd: "\<exists>c cs. decimal n = c # cs \<and> c \<noteq> CHR ''+'' \<and> c \<noteq> CHR ''-''"
proof (induction n rule: decimal.induct)
  case (1 n)
  show ?case
  proof (cases "n < 10")
    case True
    have "(of_char (digits ! n) :: nat) = 48 + n" using True by (rule digit_char)
    then have "digits ! n \<noteq> CHR ''+''" "digits ! n \<noteq> CHR ''-''"
      by auto
    then show ?thesis by (subst decimal.simps) (simp add: True)
  next
    case False
    with "1.IH" obtain c cs where "decimal (n div 10) = c # cs" "c \<noteq> CHR ''+''" "c \<noteq> CHR ''-''"
      by auto
    then show ?thesis using False by (subst decimal.simps) simp
  qed
qed

lemma ParseInt_FormatInt: "ParseInt (FormatInt i) = (i, None)"
proof (cases "sint i < 0")
  case True
  define u where "u = nat (- sint i)"
  have lo: "- (2 ^ 63) \<le> sint i" using sint_ge [of i] by simp
  have u: "u \<le> 2 ^ 63" "u < 2 ^ 64" using lo True by (simp_all add: u_def)
  have w: "- (word_of_nat u :: 64 word) = i"
    using True by (simp add: u_def word_of_nat_eq_iff flip: of_int_of_nat)
  have "ParseUint (decimal u) = (u, None)"
    using u by (simp add: ParseUint_def decimal_not_Nil ParseUint_loop_decimal)
  then show ?thesis
    using True u w by (simp add: ParseInt_def FormatInt_def u_def [symmetric])
next
  case False
  define u where "u = nat (sint i)"
  have hi: "sint i < 2 ^ 63" using sint_lt [of i] by simp
  have u: "u < 2 ^ 63" "u < 2 ^ 64" using hi False by (simp_all add: u_def)
  have w: "(word_of_nat u :: 64 word) = i"
    using False by (simp add: u_def)
  obtain c cs where d: "decimal u = c # cs" "c \<noteq> CHR ''+''" "c \<noteq> CHR ''-''"
    using decimal_hd by blast
  have "ParseUint (decimal u) = (u, None)"
    using u by (simp add: ParseUint_def decimal_not_Nil ParseUint_loop_decimal)
  then show ?thesis
    using False u w d by (simp add: ParseInt_def FormatInt_def u_def [symmetric])
qed

lemma ParseInt_error:
  "snd (ParseInt s) = Some e \<Longrightarrow> e = NumError ''ParseInt'' s ErrSyntax \<or> e = NumError ''ParseInt'' s ErrRange"
  by (auto simp add: ParseInt_def Let_def
        split: list.splits prod.splits option.splits numerr.splits if_splits)

section \<open>The claims\<close>

subsection \<open>C1: what GetSession returns\<close>

text \<open>
  Claim C1 says that \<^verbatim>\<open>GetSession\<close> never returns an error: a cookie that fails
  verification would give a new empty session and a nil error. It does not hold: the
  store's error is returned as it is. With the initialised test configuration and a
  request whose session cookie the codec rejects, the caller receives the codec's error.
\<close>

theorem GetSession_error_counterexample:
  "returned_error
     (GetSession testEnv testConfig (emptyRequest\<lparr>cookies := [(''session'', ''tampered'')]\<rparr>))
   = Some (ErrCodec ''securecookie: the value is not valid'')"
  by (simp add: testConfig_eq returned_error_def session_defs emptyRequest_def testEnv_def)

text \<open>
  Claim C1, amended: for a configuration with a store and a valid cookie name, and a
  request with no session registered under that name, \<^verbatim>\<open>GetSession\<close> returns a session.
  Without the cookie the session is new and empty and the error is nil. With a cookie
  that the codec rejects the session is new and empty as well, and the codec's error is
  returned beside it. With a cookie that the codec accepts the session holds the decoded
  values, is not new, and the error is nil.
\<close>

theorem GetSession_result:
  assumes "store c = Some cs" and "isCookieNameValid (CookieName c)"
    and "registry r (CookieName c) = None"
  shows
    "(map_of (cookies r) (CookieName c) = None \<longrightarrow>
        (\<exists>r1 s. GetSession ev c r = Inr (r1, Some s, None) \<and> IsNew s \<and> Values s = [])) \<and>
     (map_of (cookies r) (CookieName c) = Some v \<and>
      DecodeMulti ev (CookieName c) v (Codecs cs) = Inl msg \<longrightarrow>
        (\<exists>r1 s. GetSession ev c r = Inr (r1, Some s, Some (ErrCodec msg))
                 \<and> IsNew s \<and> Values s = [])) \<and>
     (map_of (cookies r) (CookieName c) = Some v \<and>
      DecodeMulti ev (CookieName c) v (Codecs cs) = Inr vals \<longrightarrow>
        (\<exists>r1 s. GetSession ev c r = Inr (r1, Some s, None) \<and> \<not> IsNew s \<and> Values s = vals))"
  using assms
  by (simp add: GetSession_def Registry_Get_def CookieStore_New_def NewSession_def Let_def)

theorem GetSession_result_witness:
  "isCookieNameValid (CookieName testConfig) \<and>
   registry emptyRequest (CookieName testConfig) = None \<and>
   (\<exists>cs. store testConfig = Some cs \<and>
      DecodeMulti testEnv (CookieName testConfig) ''tampered'' (Codecs cs)
        = Inl ''securecookie: the value is not valid'' \<and>
      DecodeMulti testEnv (CookieName testConfig) ''sealed'' (Codecs cs)
        = Inr [(StringV ''key'', StringV ''value'')]) \<and>
   (\<exists>r1 s. GetSession testEnv testConfig emptyRequest = Inr (r1, Some s, None)
            \<and> IsNew s \<and> Values s = []) \<and>
   (\<exists>r1 s. GetSession testEnv testConfig (emptyRequest\<lparr>cookies := [(''session'', ''tampered'')]\<rparr>)
              = Inr (r1, Some s, Some (ErrCodec ''securecookie: the value is not valid''))
            \<and> IsNew s \<and> Values s = []) \<and>
   (\<exists>r1 s. GetSession testEnv testConfig (emptyRequest\<lparr>cookies := [(''session'', ''sealed'')]\<rparr>)
              = Inr (r1, Some s, None)
            \<and> \<not> IsNew s \<and> Values s = [(StringV ''key'', StringV ''value'')])"
proof -
  let ?t = "emptyRequest\<lparr>cookies := [(''session'', ''tampered'')]\<rparr>"
  let ?s = "emptyRequest\<lparr>cookies := [(''session'', ''sealed'')]\<rparr>"
  obtain cs where cs: "store testConfig = Some cs"
    by (simp add: testConfig_eq)
  have v: "isCookieNameValid (CookieName testConfig)"
    by (simp add: testConfig_eq isCookieNameValid_def isToken_def)
  have n: "registry emptyRequest (CookieName testConfig) = None"
    "registry ?t (CookieName testConfig) = None" "registry ?s (CookieName testConfig) = None"
    by (simp_all add: emptyRequest_def)
  have k: "map_of (cookies emptyRequest) (CookieName testConfig) = None"
    "map_of (cookies ?t) (CookieName testConfig) = Some ''tampered''"
    "map_of (cookies ?s) (CookieName testConfig) = Some ''sealed''"
    by (simp_all add: testConfig_eq emptyRequest_def)
  have d: "DecodeMulti testEnv (CookieName testConfig) ''tampered'' (Codecs cs)
             = Inl ''securecookie: the value is not valid''"
    "DecodeMulti testEnv (CookieName testConfig) ''sealed'' (Codecs cs)
             = Inr [(StringV ''key'', StringV ''value'')]"
    by (simp_all add: testEnv_def)
  from GetSession_result [OF cs v n(1), where ev = testEnv]
    GetSession_result [OF cs v n(2), where v = "''tampered''" and ev = testEnv
      and msg = "''securecookie: the value is not valid''"]
    GetSession_result [OF cs v n(3), where v = "''sealed''" and ev = testEnv
      and vals = "[(StringV ''key'', StringV ''value'')]"]
    k d cs v n
  show ?thesis by blast
qed

subsection \<open>C2: validate and the max-age\<close>

text \<open>
  Claim C2 says that a configuration whose max-age is below one second is left
  unmodified by the failing \<^verbatim>\<open>validate\<close>. It does not hold: the blank domain and path are
  replaced before the max-age is looked at. A configuration with an empty domain and a
  max-age of zero comes back with the domain "." beside the error.
\<close>

theorem validate_MaxAge_counterexample:
  "validate [] (NewConfig\<lparr>Domain := [], MaxAge := 0\<rparr>) =
     ([], NewConfig\<lparr>Domain := ''.'', MaxAge := 0\<rparr>, Some ErrMaxAgeTooShort)"
  by (simp add: validate_defs default_defs blank_defs)

text \<open>
  Claim C2, amended: \<^verbatim>\<open>validate\<close> never changes the max-age, and a max-age of at least one
  second is never the reason of a failure. With a max-age below one second it fails with
  \<^verbatim>\<open>ErrMaxAgeTooShort\<close>, reads no random key, and leaves the configuration as it was but
  for a blank domain, replaced by ".", and a blank path, replaced by "/".
\<close>

theorem validate_MaxAge:
  "MaxAge (config_of (validate rnd c)) = MaxAge c \<and>
   (Second \<le> MaxAge c \<longrightarrow> error_of (validate rnd c) \<noteq> Some ErrMaxAgeTooShort) \<and>
   (MaxAge c < Second \<longrightarrow>
      validate rnd c =
        (rnd,
         c\<lparr>Domain := (if TrimSpace_empty (Domain c) then defaultDomain else Domain c),
           Path := (if TrimSpace_empty (Path c) then defaultPath else Path c)\<rparr>,
         Some ErrMaxAgeTooShort))"
  by (auto simp add: validate_defs split: prod.splits option.splits)

theorem validate_MaxAge_witness:
  "Second \<le> MaxAge NewConfig \<and>
   MaxAge (config_of (validate testTape NewConfig)) = 3600 * Second \<and>
   error_of (validate testTape NewConfig) \<noteq> Some ErrMaxAgeTooShort \<and>
   MaxAge (NewConfig\<lparr>MaxAge := 999999999, Path := '' ''\<rparr>) < Second \<and>
   validate testTape (NewConfig\<lparr>MaxAge := 999999999, Path := '' ''\<rparr>) =
     (testTape, NewConfig\<lparr>MaxAge := 999999999, Path := ''/''\<rparr>, Some ErrMaxAgeTooShort)"
  using validate_MaxAge [of testTape NewConfig]
    validate_MaxAge [of testTape "NewConfig\<lparr>MaxAge := 999999999, Path := '' ''\<rparr>"]
  by (simp add: default_defs blank_defs)

subsection \<open>C3: a value added is the value read\<close>

text \<open>
  Claim C3: when \<^verbatim>\<open>AddValue(w, r, k, v)\<close> has returned without error, \<^verbatim>\<open>GetValue(r, k)\<close> on
  the same request returns \<open>v\<close>. When the session of the request has been obtained without
  error and holds no value under \<open>k\<close>, or one that is not a string, \<^verbatim>\<open>GetValue\<close> returns
  \<^verbatim>\<open>ErrKeyNotFound\<close>.
\<close>

theorem AddValue_GetValue:
  "(AddValue ev c w r k v = Inr (r1, w1, None) \<longrightarrow> GetValue ev c r1 k = Inr (r1, v, None)) \<and>
   (GetSession ev c r = Inr (r2, Some s, None) \<and>
    (map_of (Values s) (StringV k') = None \<or>
     (\<exists>x. map_of (Values s) (StringV k') = Some x \<and> \<not> is_string x)) \<longrightarrow>
      GetValue ev c r k' = Inr (r2, [], Some ErrKeyNotFound))"
  using GetValue_after_AddValue [of ev c w r k v r1 w1] GetValue_absent [of ev c r r2 s k']
  by blast

theorem AddValue_GetValue_witness:
  "\<exists>r1 w1 r2 s.
     AddValue testEnv testConfig [] emptyRequest ''user_session_id'' ''2554'' = Inr (r1, w1, None) \<and>
     GetValue testEnv testConfig r1 ''user_session_id'' = Inr (r1, ''2554'', None) \<and>
     GetSession testEnv testConfig emptyRequest = Inr (r2, Some s, None) \<and>
     map_of (Values s) (StringV ''wrong key'') = None \<and>
     GetValue testEnv testConfig emptyRequest ''wrong key'' = Inr (r2, [], Some ErrKeyNotFound)"
proof -
  have "\<exists>r1 w1. AddValue testEnv testConfig [] emptyRequest ''user_session_id'' ''2554''
          = Inr (r1, w1, None)"
    by (simp add: AddValue_def testConfig_eq session_defs emptyRequest_def testEnv_def)
  then obtain r1 w1 where
    a: "AddValue testEnv testConfig [] emptyRequest ''user_session_id'' ''2554'' = Inr (r1, w1, None)"
    by blast
  have "\<exists>r2 s. GetSession testEnv testConfig emptyRequest = Inr (r2, Some s, None) \<and>
          map_of (Values s) (StringV ''wrong key'') = None"
    by (simp add: testConfig_eq session_defs emptyRequest_def testEnv_def)
  then obtain r2 s where
    g: "GetSession testEnv testConfig emptyRequest = Inr (r2, Some s, None)" and
    m: "map_of (Values s) (StringV ''wrong key'') = None"
    by blast
  from AddValue_GetValue [of testEnv testConfig "[]" emptyRequest "''user_session_id''" "''2554''"
      r1 w1 r2 s "''wrong key''"] a g m
  show ?thesis by blast
qed

subsection \<open>C4: validate and the lengths of the keys\<close>

text \<open>
  Claim C4 says that a key that is not empty and has the wrong length yields the error
  of that key. It does not hold as it stands: the checks run in order, and the first one
  that fails decides. With both keys of a wrong length the error is that of the auth
  key, not that of the encrypt key; with a max-age of zero and an auth key of a wrong
  length the error is that of the max-age.
\<close>

theorem validate_key_lengths_counterexample:
  "error_of (validate [] (NewConfig\<lparr>AuthKey := ''too short'', EncryptKey := ''too short''\<rparr>))
     = Some ErrAuthKeyWrongSize \<and>
   error_of (validate [] (NewConfig\<lparr>MaxAge := 0, AuthKey := ''too short''\<rparr>))
     = Some ErrMaxAgeTooShort"
  by (simp add: validate_defs default_defs blank_defs)

text \<open>
  Claim C4, amended: with a max-age of at least one second, an auth key that is not empty
  and not 64 bytes long yields \<^verbatim>\<open>ErrAuthKeyWrongSize\<close>; when the auth key is empty or 64
  bytes long, an encrypt key that is not empty and not 32 bytes long yields
  \<^verbatim>\<open>ErrEncyptKeyWrongSize\<close>. A key of exactly 64 or 32 bytes is never changed, and with
  both keys empty or of the exact length there is no error. An empty key is replaced by
  the bytes that the random source delivers for it, 64 or 32 of them, when the source
  delivers that many.
\<close>

theorem validate_key_lengths:
  assumes "Second \<le> MaxAge c"
  shows
   "(AuthKey c \<noteq> [] \<and> length (AuthKey c) \<noteq> 64 \<longrightarrow>
       error_of (validate rnd c) = Some ErrAuthKeyWrongSize) \<and>
    ((AuthKey c = [] \<or> length (AuthKey c) = 64) \<and>
     EncryptKey c \<noteq> [] \<and> length (EncryptKey c) \<noteq> 32 \<longrightarrow>
       error_of (validate rnd c) = Some ErrEncyptKeyWrongSize) \<and>
    (length (AuthKey c) = 64 \<longrightarrow> AuthKey (config_of (validate rnd c)) = AuthKey c) \<and>
    (length (EncryptKey c) = 32 \<longrightarrow> EncryptKey (config_of (validate rnd c)) = EncryptKey c) \<and>
    ((AuthKey c = [] \<or> length (AuthKey c) = 64) \<and>
     (EncryptKey c = [] \<or> length (EncryptKey c) = 32) \<longrightarrow>
       error_of (validate rnd c) = None) \<and>
    (AuthKey c = [] \<and> 64 \<le> length ka \<longrightarrow>
       AuthKey (config_of (validate (ka # tape) c)) = take 64 ka \<and>
       length (AuthKey (config_of (validate (ka # tape) c))) = 64) \<and>
    (length (AuthKey c) = 64 \<and> EncryptKey c = [] \<and> 32 \<le> length ka \<longrightarrow>
       EncryptKey (config_of (validate (ka # tape) c)) = take 32 ka \<and>
       length (EncryptKey (config_of (validate (ka # tape) c))) = 32) \<and>
    (AuthKey c = [] \<and> EncryptKey c = [] \<and> 32 \<le> length kb \<longrightarrow>
       EncryptKey (config_of (validate (ka # kb # tape) c)) = take 32 kb \<and>
       length (EncryptKey (config_of (validate (ka # kb # tape) c))) = 32)"
  using assms
  by (cases rnd) (auto simp add: validate_defs split: prod.splits option.splits)

theorem validate_key_lengths_witness:
  "Second \<le> MaxAge NewConfig \<and>
   error_of (validate testTape (NewConfig\<lparr>AuthKey := ''too short''\<rparr>)) = Some ErrAuthKeyWrongSize \<and>
   error_of (validate testTape (NewConfig\<lparr>EncryptKey := ''too short''\<rparr>))
     = Some ErrEncyptKeyWrongSize \<and>
   AuthKey (config_of (validate testTape (NewConfig\<lparr>AuthKey := replicate 64 (CHR ''k'')\<rparr>)))
     = replicate 64 (CHR ''k'') \<and>
   EncryptKey (config_of (validate testTape (NewConfig\<lparr>AuthKey := replicate 64 (CHR ''k'')\<rparr>)))
     = replicate 32 (CHR ''a'') \<and>
   EncryptKey (config_of (validate testTape (NewConfig\<lparr>EncryptKey := replicate 32 (CHR ''x'')\<rparr>)))
     = replicate 32 (CHR ''x'') \<and>
   error_of (validate testTape NewConfig) = None \<and>
   AuthKey (config_of (validate testTape NewConfig)) = replicate 64 (CHR ''a'') \<and>
   EncryptKey (config_of (validate testTape NewConfig)) = replicate 32 (CHR ''e'')"
proof -
  have m: "Second \<le> MaxAge (NewConfig\<lparr>AuthKey := ''too short''\<rparr>)"
    "Second \<le> MaxAge (NewConfig\<lparr>EncryptKey := ''too short''\<rparr>)"
    "Second \<le> MaxAge (NewConfig\<lparr>AuthKey := replicate 64 (CHR ''k'')\<rparr>)"
    "Second \<le> MaxAge NewConfig"
    "Second \<le> MaxAge (NewConfig\<lparr>EncryptKey := replicate 32 (CHR ''x'')\<rparr>)"
    by (simp_all add: default_defs)
  show ?thesis
    using validate_key_lengths [OF m(1), where rnd = testTape]
      validate_key_lengths [OF m(2), where rnd = testTape]
      validate_key_lengths [OF m(3), where rnd = testTape and ka = "replicate 64 (CHR ''a'')"
        and tape = "[replicate 32 (CHR ''e'')]"]
      validate_key_lengths [OF m(5), where rnd = testTape]
      validate_key_lengths [OF m(4), where rnd = testTape and ka = "replicate 64 (CHR ''a'')"
        and tape = "[replicate 32 (CHR ''e'')]"]
      validate_key_lengths [OF m(4), where rnd = testTape and ka = "replicate 64 (CHR ''a'')"
        and kb = "replicate 32 (CHR ''e'')" and tape = "[]"]
      m(4)
    by (simp add: NewConfig_def testTape_def)
qed

subsection \<open>C5: Extend and Destroy\<close>

text \<open>
  Claim C5: \<^verbatim>\<open>Extend\<close> and \<^verbatim>\<open>Destroy\<close> are the same sequence of steps, obtain the session,
  derive the options from the configuration, save, with one difference: \<^verbatim>\<open>Destroy\<close> sets
  the max-age of the derived options to -1 and \<^verbatim>\<open>Extend\<close> leaves the options as derived.
  Both end the same way: the same panic or the same error.
\<close>

theorem Extend_Destroy_resave:
  "Extend ev c w r = resave_with (\<lambda>opts. opts) ev c w r \<and>
   Destroy ev c w r = resave_with (\<lambda>opts. opts\<lparr>Options_MaxAge := - 1\<rparr>) ev c w r \<and>
   returned_error (Destroy ev c w r) = returned_error (Extend ev c w r) \<and>
   panics (Destroy ev c w r) = panics (Extend ev c w r)"
  by (simp add: Extend_def Destroy_def resave_with_def Let_def Session_Save_def
        returned_error_def panics_def
        split: sum.splits prod.splits option.splits)

theorem Extend_Destroy_resave_witness:
  "Extend testEnv testConfig [] emptyRequest =
     resave_with (\<lambda>opts. opts) testEnv testConfig [] emptyRequest \<and>
   Destroy testEnv testConfig [] emptyRequest =
     resave_with (\<lambda>opts. opts\<lparr>Options_MaxAge := - 1\<rparr>) testEnv testConfig [] emptyRequest \<and>
   returned_error (Destroy testEnv testConfig [] emptyRequest) = None \<and>
   \<not> panics (Extend testEnv testConfig [] emptyRequest)"
proof -
  have "returned_error (Destroy testEnv testConfig [] emptyRequest) = None"
    by (simp add: Destroy_def returned_error_def testConfig_eq session_defs emptyRequest_def
          testEnv_def getOptions_def)
  moreover have "\<not> panics (Extend testEnv testConfig [] emptyRequest)"
    by (simp add: Extend_def panics_def testConfig_eq session_defs emptyRequest_def
          testEnv_def getOptions_def)
  ultimately show ?thesis
    using Extend_Destroy_resave [of testEnv testConfig "[]" emptyRequest] by simp
qed

subsection \<open>C6: blank domain and path\<close>

text \<open>
  Claim C6: whatever else \<^verbatim>\<open>validate\<close> finds, a domain that is empty or white space only
  is replaced by "." and such a path by "/"; a domain or path with a rune that is not
  white space is left as it is, surrounding white space included.
\<close>

theorem validate_blank_Domain_Path:
  "Domain (config_of (validate rnd c)) = (if TrimSpace_empty (Domain c) then ''.'' else Domain c) \<and>
   Path (config_of (validate rnd c)) = (if TrimSpace_empty (Path c) then ''/'' else Path c)"
  by (simp add: validate_defs defaultDomain_def defaultPath_def split: prod.splits option.splits)

theorem validate_blank_Domain_Path_witness:
  "TrimSpace_empty [CHR '' '', CHR 0x09, CHR 0xC2, CHR 0xA0, CHR 0xE2, CHR 0x80, CHR 0x83] \<and>
   \<not> TrimSpace_empty '' /app '' \<and>
   Domain (config_of (validate testTape
     (NewConfig\<lparr>Domain := [CHR '' '', CHR 0x09, CHR 0xC2, CHR 0xA0, CHR 0xE2, CHR 0x80, CHR 0x83],
                Path := '' /app ''\<rparr>))) = ''.'' \<and>
   Path (config_of (validate testTape
     (NewConfig\<lparr>Domain := [CHR '' '', CHR 0x09, CHR 0xC2, CHR 0xA0, CHR 0xE2, CHR 0x80, CHR 0x83],
                Path := '' /app ''\<rparr>))) = '' /app ''"
  using validate_blank_Domain_Path [of testTape
      "NewConfig\<lparr>Domain := [CHR '' '', CHR 0x09, CHR 0xC2, CHR 0xA0, CHR 0xE2, CHR 0x80, CHR 0x83],
                 Path := '' /app ''\<rparr>"]
  by (simp add: blank_defs)

subsection \<open>C7: GetAllValues on a session of strings\<close>

text \<open>
  Claim C7: when the session of the request has been obtained without error and each of
  its entries has a string key and a string value, \<^verbatim>\<open>GetAllValues\<close> returns without error
  and without panic a mapping from strings to strings with exactly those entries. The
  entries of a session are those of a Go map: no key occurs twice.
\<close>

theorem GetAllValues_string_entries:
  assumes "GetSession ev c r = Inr (r1, Some s, None)"
    and "string_entries (Values s)" and "distinct (map fst (Values s))"
  shows "\<exists>kv. GetAllValues ev c r = Inr (r1, kv, None) \<and> distinct (map fst kv) \<and>
           (\<forall>k v. map_of kv k = Some v \<longleftrightarrow> map_of (Values s) (StringV k) = Some (StringV v))"
proof -
  from range_Values_strings [OF assms(2) assms(3), of "[]"] obtain kv where
    r: "range_Values (Values s) [] = Inr kv" and d: "distinct (map fst kv)" and
    m1: "\<forall>k v. map_of (Values s) (StringV k) = Some (StringV v) \<longrightarrow> map_of kv k = Some v" and
    m2: "\<forall>k. map_of (Values s) (StringV k) = None \<longrightarrow> map_of kv k = None"
    by auto
  have "map_of kv k = Some v \<longleftrightarrow> map_of (Values s) (StringV k) = Some (StringV v)" for k v
  proof (cases "map_of (Values s) (StringV k)")
    case None
    with m2 show ?thesis by simp
  next
    case (Some x)
    with string_entries_lookup [OF assms(2)] obtain v' where "x = StringV v'" by blast
    with Some m1 show ?thesis by auto
  qed
  with assms(1) r d show ?thesis by (simp add: GetAllValues_def)
qed

theorem GetAllValues_string_entries_witness:
  "\<exists>r1 s kv.
     GetSession testEnv testConfig (emptyRequest\<lparr>cookies := [(''session'', ''sealed'')]\<rparr>)
       = Inr (r1, Some s, None) \<and>
     string_entries (Values s) \<and> distinct (map fst (Values s)) \<and>
     map_of (Values s) (StringV ''key'') = Some (StringV ''value'') \<and>
     GetAllValues testEnv testConfig (emptyRequest\<lparr>cookies := [(''session'', ''sealed'')]\<rparr>)
       = Inr (r1, kv, None) \<and>
     map_of kv ''key'' = Some ''value''"
proof -
  let ?r = "emptyRequest\<lparr>cookies := [(''session'', ''sealed'')]\<rparr>"
  have "\<exists>r1 s. GetSession testEnv testConfig ?r = Inr (r1, Some s, None) \<and>
          string_entries (Values s) \<and> distinct (map fst (Values s)) \<and>
          map_of (Values s) (StringV ''key'') = Some (StringV ''value'')"
    by (simp add: testConfig_eq session_defs emptyRequest_def testEnv_def string_entries_def
          is_string_def)
  then obtain r1 s where
    g: "GetSession testEnv testConfig ?r = Inr (r1, Some s, None)" and
    e: "string_entries (Values s)" and d: "distinct (map fst (Values s))" and
    m: "map_of (Values s) (StringV ''key'') = Some (StringV ''value'')"
    by blast
  from GetAllValues_string_entries [OF g e d] g e d m show ?thesis by blast
qed

subsection \<open>C8: validate twice\<close>



subsection \<open>C9: the user id\<close>

text \<open>
  Claim C9: when \<^verbatim>\<open>AddUserID(w, r, n)\<close> has returned without error, \<^verbatim>\<open>GetUserID(r)\<close> on the
  same request returns \<open>n\<close>, for every \<^verbatim>\<open>int64\<close> \<open>n\<close>. When the string stored under the
  user id does not parse, \<^verbatim>\<open>GetUserID\<close> returns the error of \<^verbatim>\<open>strconv.ParseInt\<close>, a syntax
  or a range error, which is not \<^verbatim>\<open>ErrKeyNotFound\<close>; for "abc" it is the syntax error.
\<close>

theorem UserID_round_trip:
  "(AddUserID ev c w r n = Inr (r', w', None) \<longrightarrow> GetUserID ev c r' = Inr (r', n, None)) \<and>
   (GetValue ev c r keyUserID = Inr (r'', valStr, None) \<and> snd (ParseInt valStr) = Some e \<longrightarrow>
      GetUserID ev c r = Inr (r'', fst (ParseInt valStr), Some e) \<and> e \<noteq> ErrKeyNotFound \<and>
      (e = NumError ''ParseInt'' valStr ErrSyntax \<or> e = NumError ''ParseInt'' valStr ErrRange)) \<and>
   ParseInt ''abc'' = (0, Some (NumError ''ParseInt'' ''abc'' ErrSyntax))"
proof -
  have a: "GetUserID ev c r' = Inr (r', n, None)" if "AddUserID ev c w r n = Inr (r', w', None)"
    using GetValue_after_AddValue [of ev c w r keyUserID "FormatInt n" r' w'] that
    by (simp add: AddUserID_def GetUserID_def ParseInt_FormatInt)
  have b: "GetUserID ev c r = Inr (r'', fst (ParseInt valStr), Some e) \<and> e \<noteq> ErrKeyNotFound \<and>
      (e = NumError ''ParseInt'' valStr ErrSyntax \<or> e = NumError ''ParseInt'' valStr ErrRange)"
    if "GetValue ev c r keyUserID = Inr (r'', valStr, None)" "snd (ParseInt valStr) = Some e"
  proof -
    obtain val err where p: "ParseInt valStr = (val, err)"
      by (cases "ParseInt valStr")
    with that(2) have "err = Some e" by simp
    with p that(1) ParseInt_error [of valStr e] that(2) show ?thesis
      by (auto simp add: GetUserID_def)
  qed
  have c: "ParseInt ''abc'' = (0, Some (NumError ''ParseInt'' ''abc'' ErrSyntax))"
    by (simp add: ParseInt_def ParseUint_def ParseUint_step_def)
  from a b c show ?thesis by blast
qed

theorem UserID_round_trip_witness:
  "\<exists>r1 w1 r2.
     AddUserID testEnv testConfig [] emptyRequest 42 = Inr (r1, w1, None) \<and>
     GetUserID testEnv testConfig r1 = Inr (r1, 42, None) \<and>
     GetValue testEnv testConfig (emptyRequest\<lparr>cookies := [(''session'', ''sealed abc'')]\<rparr>)
       keyUserID = Inr (r2, ''abc'', None) \<and>
     GetUserID testEnv testConfig (emptyRequest\<lparr>cookies := [(''session'', ''sealed abc'')]\<rparr>)
       = Inr (r2, 0, Some (NumError ''ParseInt'' ''abc'' ErrSyntax))"
proof -
  let ?r = "emptyRequest\<lparr>cookies := [(''session'', ''sealed abc'')]\<rparr>"
  have "\<exists>r1 w1. AddUserID testEnv testConfig [] emptyRequest 42 = Inr (r1, w1, None)"
    by (simp add: AddUserID_def AddValue_def testConfig_eq session_defs emptyRequest_def
          testEnv_def)
  then obtain r1 w1 where
    a: "AddUserID testEnv testConfig [] emptyRequest 42 = Inr (r1, w1, None)"
    by blast
  have "\<exists>r2. GetValue testEnv testConfig ?r keyUserID = Inr (r2, ''abc'', None)"
    by (simp add: GetValue_def testConfig_eq session_defs emptyRequest_def testEnv_def
          keyUserID_def)
  then obtain r2 where g: "GetValue testEnv testConfig ?r keyUserID = Inr (r2, ''abc'', None)"
    by blast
  have p: "ParseInt ''abc'' = (0, Some (NumError ''ParseInt'' ''abc'' ErrSyntax))"
    by (simp add: ParseInt_def ParseUint_def ParseUint_step_def)
  from UserID_round_trip [where ev = testEnv and c = testConfig and w = "[]" and r = emptyRequest
      and n = 42 and r' = r1 and w' = w1]
    UserID_round_trip [where ev = testEnv and c = testConfig and r = ?r and r'' = r2
      and valStr = "''abc''" and e = "NumError ''ParseInt'' ''abc'' ErrSyntax"] a g p
  show ?thesis by auto
qed

subsection \<open>C10: operations without a store\<close>

text \<open>
  Claim C10 says that every session operation on a configuration whose \<^verbatim>\<open>Init\<close> has
  never succeeded panics. It does not hold for every such configuration: the registry
  checks the cookie name before anything touches the store. The zero configuration, which
  is the package-level configuration before \<^verbatim>\<open>DefaultConfig()\<close>, has no store and the empty
  cookie name, and \<^verbatim>\<open>GetSession\<close> returns an error for it.
\<close>

theorem nil_store_counterexample:
  "store zeroConfig = None \<and>
   GetSession testEnv zeroConfig emptyRequest =
     Inr (emptyRequest, None, Some (ErrInvalidCookieName []))"
  by (simp add: zeroConfig_def session_defs)

text \<open>
  Claim C10, amended: on a configuration without a store, with a valid cookie name and a
  request with no session registered under that name, each of \<^verbatim>\<open>GetSession\<close>,
  \<^verbatim>\<open>AddValue\<close>, \<^verbatim>\<open>GetValue\<close>, \<^verbatim>\<open>GetAllValues\<close>, \<^verbatim>\<open>Extend\<close> and \<^verbatim>\<open>Destroy\<close> panics on the nil
  store; none of them checks for it. With a cookie name that is not valid each of them
  returns the error of the registry and leaves request and response as they were.
\<close>

theorem nil_store_operations:
  assumes "store c = None"
  shows
    "(isCookieNameValid (CookieName c) \<and> registry r (CookieName c) = None \<longrightarrow>
        GetSession ev c r = Inl NilPointerDereference \<and>
        AddValue ev c w r k v = Inl NilPointerDereference \<and>
        GetValue ev c r k = Inl NilPointerDereference \<and>
        GetAllValues ev c r = Inl NilPointerDereference \<and>
        Extend ev c w r = Inl NilPointerDereference \<and>
        Destroy ev c w r = Inl NilPointerDereference) \<and>
     (\<not> isCookieNameValid (CookieName c) \<longrightarrow>
        GetSession ev c r = Inr (r, None, Some (ErrInvalidCookieName (CookieName c))) \<and>
        AddValue ev c w r k v = Inr (r, w, Some (ErrInvalidCookieName (CookieName c))) \<and>
        GetValue ev c r k = Inr (r, [], Some (ErrInvalidCookieName (CookieName c))) \<and>
        GetAllValues ev c r = Inr (r, [], Some (ErrInvalidCookieName (CookieName c))) \<and>
        Extend ev c w r = Inr (r, w, Some (ErrInvalidCookieName (CookieName c))) \<and>
        Destroy ev c w r = Inr (r, w, Some (ErrInvalidCookieName (CookieName c))))"
proof -
  have a: "GetSession ev c r = Inl NilPointerDereference"
    if "isCookieNameValid (CookieName c)" "registry r (CookieName c) = None"
    using that assms by (simp add: GetSession_def Registry_Get_def CookieStore_New_def)
  have b: "GetSession ev c r = Inr (r, None, Some (ErrInvalidCookieName (CookieName c)))"
    if "\<not> isCookieNameValid (CookieName c)"
    using that by (simp add: GetSession_def Registry_Get_def)
  show ?thesis
    using a b
    by (simp add: AddValue_def GetValue_def GetAllValues_def Extend_def Destroy_def)
qed

theorem nil_store_operations_witness:
  "store NewConfig = None \<and> isCookieNameValid (CookieName NewConfig) \<and>
   registry emptyRequest (CookieName NewConfig) = None \<and>
   GetSession testEnv NewConfig emptyRequest = Inl NilPointerDereference \<and>
   AddValue testEnv NewConfig [] emptyRequest ''key'' ''value'' = Inl NilPointerDereference \<and>
   GetValue testEnv NewConfig emptyRequest ''key'' = Inl NilPointerDereference \<and>
   GetAllValues testEnv NewConfig emptyRequest = Inl NilPointerDereference \<and>
   Extend testEnv NewConfig [] emptyRequest = Inl NilPointerDereference \<and>
   Destroy testEnv NewConfig [] emptyRequest = Inl NilPointerDereference \<and>
   store zeroConfig = None \<and> \<not> isCookieNameValid (CookieName zeroConfig) \<and>
   GetValue testEnv zeroConfig emptyRequest ''key'' =
     Inr (emptyRequest, [], Some (ErrInvalidCookieName []))"
proof -
  have n: "store NewConfig = None" "store zeroConfig = None"
    by (simp_all add: NewConfig_def zeroConfig_def)
  have v: "isCookieNameValid (CookieName NewConfig)" "\<not> isCookieNameValid (CookieName zeroConfig)"
    "CookieName zeroConfig = []"
    by (simp_all add: default_defs zeroConfig_def isCookieNameValid_def isToken_def)
  have e: "registry emptyRequest (CookieName NewConfig) = None"
    by (simp add: emptyRequest_def)
  from nil_store_operations [OF n(1), of emptyRequest testEnv "[]" "''key''" "''value''"]
    nil_store_operations [OF n(2), of emptyRequest testEnv "[]" "''key''" "''value''"]
    n v e
  show ?thesis by simp
qed

end
